theory Spec2Isabelle
  imports Main
begin

section \<open>Python values used by the test runner\<close>

text \<open>
  A Python \<open>str\<close> is a sequence of Unicode code points, so a string is a list of
  natural numbers. \<open>lit\<close> writes an ASCII literal of the source.
\<close>

type_synonym pystr = "nat list"

definition lit :: "string \<Rightarrow> pystr" where
  "lit s = map of_char s"

text \<open>
  \<open>str.isspace\<close> on one code point: the characters CPython's
  \<open>_PyUnicode_IsWhitespace\<close> accepts (tab to carriage return, the four separators
  U+001C to U+001F, space, U+0085, U+00A0, U+1680, U+2000 to U+200A, U+2028, U+2029,
  U+202F, U+205F, U+3000).
\<close>

definition isspace :: "nat \<Rightarrow> bool" where
  "isspace c =
     ((9 \<le> c \<and> c \<le> 13) \<or> (28 \<le> c \<and> c \<le> 32) \<or> c = 133 \<or> c = 160 \<or> c = 5760 \<or>
      (8192 \<le> c \<and> c \<le> 8202) \<or> c = 8232 \<or> c = 8233 \<or> c = 8239 \<or> c = 8287 \<or>
      c = 12288)"

text \<open>\<open>s.strip()\<close> with no argument removes whitespace at both ends of \<open>s\<close>.\<close>

definition strip :: "pystr \<Rightarrow> pystr" where
  "strip s = rev (dropWhile isspace (rev (dropWhile isspace s)))"

text \<open>\<open>str(i)\<close> for the loop index, a non-negative integer: its decimal digits.\<close>

fun str :: "nat \<Rightarrow> pystr" where
  "str n = (if n < 10 then [48 + n] else str (n div 10) @ [48 + n mod 10])"

declare str.simps [simp del]

text \<open>
  A test case is the dictionary \<open>json.load\<close> built from one object of the suite file;
  its fields are strings (section 6 of the specification). \<open>get d k dflt\<close> is
  \<open>d.get(k, dflt)\<close>.
\<close>

type_synonym test_case = "pystr \<rightharpoonup> pystr"

definition get :: "test_case \<Rightarrow> pystr \<Rightarrow> pystr \<Rightarrow> pystr" where
  "get d k dflt = (case d k of None \<Rightarrow> dflt | Some v \<Rightarrow> v)"

text \<open>The loaded document: a dictionary whose named entries are lists of test cases.\<close>

type_synonym document = "pystr \<rightharpoonup> test_case list"

text \<open>
  The exceptions of the model. \<open>KeyError\<close> carries the key that was looked up, the
  others carry their message.
\<close>

datatype exn =
    FileNotFoundError pystr
  | KeyError pystr
  | AttributeError pystr
  | UnicodeEncodeError pystr
  | Exception pystr

text \<open>
  \<open>str(e)\<close>. For a \<open>KeyError\<close> it is the \<open>repr\<close> of the key: the key between single
  quotes (code point 39), for a key that needs no escaping, as \<open>test_cases\<close>, the only
  key looked up by subscript.
\<close>

fun str_exn :: "exn \<Rightarrow> pystr" where
  "str_exn (FileNotFoundError m) = m"
| "str_exn (KeyError k) = [39] @ k @ [39]"
| "str_exn (AttributeError m) = m"
| "str_exn (UnicodeEncodeError m) = m"
| "str_exn (Exception m) = m"

section \<open>The runner's state\<close>

record failure_info =
  test :: pystr
  input :: pystr
  expected :: pystr
  actual :: "pystr option"
  error :: "pystr option"

record results =
  passed :: int
  failed :: int
  total_count :: int
  failures :: "failure_info list"

text \<open>
  \<open>timeout\<close> holds the configured limit as \<open>format\<close> renders it: the source only
  hands the number to \<open>communicate\<close> and interpolates it into the timeout message.
  \<open>verbose\<close> is \<open>None\<close> while the attribute has not been set on the object.
\<close>

record runner =
  binary_path :: pystr
  tests_file :: pystr
  timeout :: pystr
  results :: results
  verbose :: "bool option"

section \<open>The world outside the runner\<close>

text \<open>
  What \<open>subprocess.Popen\<close> followed by \<open>communicate\<close> does for one child:
  \<open>communicate\<close> returns the decoded standard output and standard error (the child
  has exited, with some return code); or it raises \<open>subprocess.TimeoutExpired\<close>; or
  \<open>Popen\<close> itself raises an exception \<open>e\<close>; or \<open>communicate\<close> raises another
  exception \<open>e\<close>. The raised cases carry \<open>str(e)\<close>.
\<close>

datatype proc_outcome =
    Completed pystr pystr int
  | TimeoutExpired
  | PopenRaised pystr
  | CommunicateRaised pystr

text \<open>
  What the runner does to the outside, in order: a line it prints, a child it spawns,
  the text it sends to the child's standard input, a kill of the child. Each \<open>line\<close>
  stands for one \<open>print\<close> call and carries the values the call interpolates; colour
  codes, the quoting \<open>repr\<close> adds and the elapsed time are left out. The number in a
  detail line is its indentation.
\<close>

datatype line =
    RunningLine nat
  | ProgressLine nat nat pystr
  | PassedLine
  | FailedLine
  | DetailsHeader pystr
  | InputLine nat pystr
  | ExpectedLine nat pystr
  | ActualLine nat pystr
  | ErrorLine nat pystr
  | BlankLine
  | Rule
  | TotalLine int
  | PassedCount int
  | FailedCount int
  | FailedTestsHeader
  | Bullet pystr
  | FatalLine pystr

datatype event =
    Print line
  | Popen
  | Communicate pystr
  | Kill

text \<open>
  The file system and the subject binary. \<open>json_load p\<close> is what opening \<open>p\<close> and
  \<open>json.load\<close> give; \<open>child i inp\<close> is what the child spawned for the \<open>i\<close>-th test
  case does when \<open>inp\<close> is written to its standard input.
\<close>

record env =
  path_exists :: "pystr \<Rightarrow> bool"
  json_load :: "pystr \<Rightarrow> exn + document"
  child :: "nat \<Rightarrow> pystr \<Rightarrow> proc_outcome"

section \<open>TestRunner\<close>

text \<open>
  A path is held as the text \<open>pathlib.Path\<close> renders for it: the arguments \<open>bp\<close> and
  \<open>tf\<close> of \<open>init\<close>, and the two path arguments of \<open>main\<close> below, stand for
  \<open>str(Path(binary_path))\<close> and \<open>str(Path(tests_file))\<close>, which wrapping in \<open>Path\<close>
  again leaves as they are.
\<close>

definition init :: "env \<Rightarrow> pystr \<Rightarrow> pystr \<Rightarrow> pystr \<Rightarrow> exn + runner" where
  "init e bp tf t =
     (if \<not> path_exists e bp then Inl (FileNotFoundError (lit ''Binary not found: '' @ bp))
      else if \<not> path_exists e tf then
        Inl (FileNotFoundError (lit ''Tests file not found: '' @ tf))
      else Inr \<lparr>binary_path = bp, tests_file = tf, timeout = t,
                results = \<lparr>passed = 0, failed = 0, total_count = 0, failures = []\<rparr>,
                verbose = None\<rparr>)"

definition load_tests :: "env \<Rightarrow> runner \<Rightarrow> exn + document" where
  "load_tests e self = json_load e (tests_file self)"

text \<open>
  \<open>run_single_test\<close> returns the triple of the source, \<open>(passed, actual, error)\<close>, and
  the events of the call. \<open>proc\<close> is the behaviour of the child this call spawns.
\<close>

definition run_single_test ::
  "runner \<Rightarrow> (pystr \<Rightarrow> proc_outcome) \<Rightarrow> test_case \<Rightarrow>
     (bool \<times> pystr option \<times> pystr option) \<times> event list" where
  "run_single_test self proc test_case =
     (let test_name = get test_case (lit ''name'') (lit ''Unnamed test'');
          input_data = get test_case (lit ''input'') [];
          expected_output = strip (get test_case (lit ''expected'') [])
      in case proc input_data of
           PopenRaised e \<Rightarrow>
             ((False, None, Some (lit ''Error: '' @ e)), [Popen])
         | Completed stdout stderr returncode \<Rightarrow>
             (let actual_output = strip stdout
              in if actual_output = expected_output
                 then ((True, Some actual_output, None), [Popen, Communicate input_data])
                 else ((False, Some actual_output, Some (lit ''Output mismatch'')),
                       [Popen, Communicate input_data]))
         | TimeoutExpired \<Rightarrow>
             ((False, None, Some (lit ''Timeout ('' @ timeout self @ lit ''s)'')),
              [Popen, Communicate input_data, Kill])
         | CommunicateRaised e \<Rightarrow>
             ((False, None, Some (lit ''Error: '' @ e)), [Popen, Communicate input_data]))"

definition print_failure_details :: "failure_info \<Rightarrow> event list" where
  "print_failure_details failure =
     [Print (DetailsHeader (test failure)),
      Print (InputLine 2 (input failure)),
      Print (ExpectedLine 2 (expected failure))]
     @ (case actual failure of None \<Rightarrow> [] | Some a \<Rightarrow> [Print (ActualLine 2 a)])
     @ (case error failure of
          None \<Rightarrow> []
        | Some m \<Rightarrow> if m = [] then [] else [Print (ErrorLine 2 m)])
     @ [Print BlankLine]"

text \<open>
  One pass of the loop of \<open>run_all_tests\<close>, for the \<open>i\<close>-th test case of \<open>n\<close>: the
  runner and the events so far go in, the updated ones come out.
\<close>

definition run_case ::
  "env \<Rightarrow> nat \<Rightarrow> runner \<times> event list \<Rightarrow> nat \<times> test_case \<Rightarrow> runner \<times> event list" where
  "run_case e n st x =
     (case st of (self, out) \<Rightarrow> case x of (i, test_case) \<Rightarrow>
        let test_name = get test_case (lit ''name'') (lit ''Test '' @ str i);
            out1 = out @ [Print (ProgressLine i n test_name)]
        in case run_single_test self (child e i) test_case of ((ok, act, err), evs) \<Rightarrow>
          let r1 = (results self)\<lparr>total_count := total_count (results self) + 1\<rparr>
          in if ok
             then (self\<lparr>results := r1\<lparr>passed := passed r1 + 1\<rparr>\<rparr>,
                   out1 @ evs @ [Print PassedLine])
             else
               let failure = \<lparr>test = test_name,
                              input = get test_case (lit ''input'') [],
                              expected = get test_case (lit ''expected'') [],
                              actual = act, error = err\<rparr>;
                   r2 = r1\<lparr>failed := failed r1 + 1, failures := failures r1 @ [failure]\<rparr>
               in (self\<lparr>results := r2\<rparr>,
                   out1 @ evs @ [Print FailedLine]
                   @ (if verbose self = Some True then print_failure_details failure
                      else [])))"

definition run_all_tests :: "env \<Rightarrow> runner \<Rightarrow> exn + runner \<times> event list" where
  "run_all_tests e self =
     (case load_tests e self of
        Inl x \<Rightarrow> Inl x
      | Inr tests \<Rightarrow>
          (case tests (lit ''test_cases'') of
             None \<Rightarrow> Inl (KeyError (lit ''test_cases''))
           | Some cases \<Rightarrow>
               Inr (foldl (run_case e (length cases))
                      (self, [Print (RunningLine (length cases))])
                      (enumerate 1 cases))))"

text \<open>The lines \<open>print_summary\<close> prints for one failure record.\<close>

definition summary_item :: "failure_info \<Rightarrow> event list" where
  "summary_item failure =
     [Print (Bullet (test failure)),
      Print (InputLine 4 (input failure)),
      Print (ExpectedLine 4 (expected failure))]
     @ (case actual failure of None \<Rightarrow> [] | Some a \<Rightarrow> [Print (ActualLine 4 a)])
     @ (case error failure of
          None \<Rightarrow> []
        | Some m \<Rightarrow> if m = [] then [] else [Print (ErrorLine 4 m)])"

definition print_summary :: "runner \<Rightarrow> int \<times> event list" where
  "print_summary self =
     (let r = results self
      in (if failed r = 0 then 0 else 1,
          [Print Rule, Print (TotalLine (total_count r)), Print (PassedCount (passed r)),
           Print (FailedCount (failed r))]
          @ (if failed r > 0
             then Print FailedTestsHeader # concat (map summary_item (failures r))
             else [])
          @ [Print Rule]))"

text \<open>
  \<open>main\<close> after argument parsing: the four parsed arguments go in, the exit status
  and the events of the whole process come out.
\<close>

definition main :: "env \<Rightarrow> pystr \<Rightarrow> pystr \<Rightarrow> bool \<Rightarrow> pystr \<Rightarrow> int \<times> event list" where
  "main e binary tests verbose_arg timeout_arg =
     (case init e binary tests timeout_arg of
        Inl x \<Rightarrow> (1, [Print (FatalLine (str_exn x))])
      | Inr runner0 \<Rightarrow>
          (case run_all_tests e (runner0\<lparr>verbose := Some verbose_arg\<rparr>) of
             Inl x \<Rightarrow> (1, [Print (FatalLine (str_exn x))])
           | Inr (runner1, out) \<Rightarrow>
               (case print_summary runner1 of (exit_code, out2) \<Rightarrow>
                  (exit_code, out @ out2))))"

section \<open>The runner on any suite the loader accepts\<close>

text \<open>
  \<open>json.load\<close> does not check the fields of a test case: a field may hold any JSON
  value, and an element of the list need not be an object. The definitions above are the
  runner on suites whose fields are strings; the definitions of this section are the same
  functions on what \<open>json.load\<close> can return, with the exceptions the field accesses and
  \<open>print\<close> raise.

  A field value is a string, \<open>null\<close>, or another value (a number, a boolean, a list, an
  object), of which the runner only ever takes the name of its Python type and the text
  \<open>str\<close> gives for it. An element of the list is an object, held as the dictionary of its
  fields, or a value of another type, held by the name of that type.
\<close>

datatype json =
    JString pystr
  | JNull
  | JOther pystr pystr

datatype element =
    Case "pystr \<rightharpoonup> json"
  | NotACase pystr

type_synonym raw_document = "pystr \<rightharpoonup> element list"

text \<open>The \<open>AttributeError\<close> for an attribute \<open>a\<close> that a value of type \<open>tn\<close> does not have.\<close>

definition no_attribute :: "pystr \<Rightarrow> pystr \<Rightarrow> exn" where
  "no_attribute tn a =
     AttributeError ([39] @ tn @ [39] @ lit '' object has no attribute '' @ [39] @ a @ [39])"

text \<open>
  The text an f-string shows for a value. Failure records and detail lines hold a field
  by this text; as in the lines above, the quoting \<open>repr\<close> adds to a string is left out.
\<close>

fun text_of :: "json \<Rightarrow> pystr" where
  "text_of (JString s) = s"
| "text_of JNull = lit ''None''"
| "text_of (JOther tn txt) = txt"

definition jget :: "(pystr \<rightharpoonup> json) \<Rightarrow> pystr \<Rightarrow> pystr \<Rightarrow> json" where
  "jget d k dflt = (case d k of None \<Rightarrow> JString dflt | Some v \<Rightarrow> v)"

text \<open>
  \<open>emit pr out evs\<close> performs the events \<open>evs\<close> after \<open>out\<close>. \<open>pr l\<close> is the exception
  \<open>print\<close> raises for the line \<open>l\<close>, if it raises one; the first line that raises ends the
  sequence, and the events before it stay in the trace.
\<close>

fun emit :: "(line \<Rightarrow> exn option) \<Rightarrow> event list \<Rightarrow> event list \<Rightarrow> exn option \<times> event list" where
  "emit pr out [] = (None, out)"
| "emit pr out (Print l # evs) =
     (case pr l of Some x \<Rightarrow> (Some x, out) | None \<Rightarrow> emit pr (out @ [Print l]) evs)"
| "emit pr out (ev # evs) = emit pr (out @ [ev]) evs"

text \<open>
  \<open>run_single_test\<close> on any test case object. The three field accesses and the
  \<open>strip\<close> of the expected value come before the \<open>try\<close>: \<open>strip\<close> on a value that is not
  a string raises \<open>AttributeError\<close>, which leaves the function (\<open>Inl\<close>). Inside the
  \<open>try\<close>, \<open>communicate\<close> writes nothing for the input \<open>None\<close>, so the child reads the
  empty input; for another value that is not a string it raises \<open>AttributeError\<close> (the
  value has no \<open>encode\<close>), which the \<open>except\<close> clause turns into a result. \<open>Popen\<close> is
  called before the input is looked at, so whether it raises is read off the child at the
  empty input.
\<close>

definition run_single_test_raw ::
  "runner \<Rightarrow> (pystr \<Rightarrow> proc_outcome) \<Rightarrow> (pystr \<rightharpoonup> json) \<Rightarrow>
     (exn + bool \<times> pystr option \<times> pystr option) \<times> event list" where
  "run_single_test_raw self proc test_case =
     (let test_name = jget test_case (lit ''name'') (lit ''Unnamed test'');
          input_data = jget test_case (lit ''input'') []
      in case jget test_case (lit ''expected'') [] of
           JNull \<Rightarrow> (Inl (no_attribute (lit ''NoneType'') (lit ''strip'')), [])
         | JOther tn txt \<Rightarrow> (Inl (no_attribute tn (lit ''strip'')), [])
         | JString expected_raw \<Rightarrow>
             (let expected_output = strip expected_raw
              in case input_data of
                   JOther tn txt \<Rightarrow>
                     (case proc [] of
                        PopenRaised e \<Rightarrow>
                          (Inr (False, None, Some (lit ''Error: '' @ e)), [Popen])
                      | _ \<Rightarrow>
                          (Inr (False, None,
                                Some (lit ''Error: '' @ str_exn (no_attribute tn (lit ''encode'')))),
                           [Popen]))
                 | _ \<Rightarrow>
                     (let sent = (case input_data of JString s \<Rightarrow> s | _ \<Rightarrow> [])
                      in case proc sent of
                           PopenRaised e \<Rightarrow>
                             (Inr (False, None, Some (lit ''Error: '' @ e)), [Popen])
                         | Completed stdout stderr returncode \<Rightarrow>
                             (let actual_output = strip stdout
                              in if actual_output = expected_output
                                 then (Inr (True, Some actual_output, None),
                                       [Popen, Communicate sent])
                                 else (Inr (False, Some actual_output,
                                            Some (lit ''Output mismatch'')),
                                       [Popen, Communicate sent]))
                         | TimeoutExpired \<Rightarrow>
                             (Inr (False, None,
                                   Some (lit ''Timeout ('' @ timeout self @ lit ''s)'')),
                              [Popen, Communicate sent, Kill])
                         | CommunicateRaised e \<Rightarrow>
                             (Inr (False, None, Some (lit ''Error: '' @ e)),
                              [Popen, Communicate sent]))))"

text \<open>
  One pass of the loop on any element. \<open>get\<close> on an element that is not an object, the
  \<open>print\<close> calls and \<open>run_single_test\<close> are outside every \<open>try\<close>: what they raise leaves
  the loop. The result holds the exception, if one was raised, and the runner and the
  events at that point.
\<close>

definition run_case_raw ::
  "env \<Rightarrow> (line \<Rightarrow> exn option) \<Rightarrow> nat \<Rightarrow> runner \<times> event list \<Rightarrow> nat \<times> element \<Rightarrow>
     exn option \<times> runner \<times> event list" where
  "run_case_raw e pr n st x =
     (case st of (self, out) \<Rightarrow> case x of (i, el) \<Rightarrow>
        case el of
          NotACase tn \<Rightarrow> (Some (no_attribute tn (lit ''get'')), self, out)
        | Case test_case \<Rightarrow>
            let test_name = text_of (jget test_case (lit ''name'') (lit ''Test '' @ str i))
            in case emit pr out [Print (ProgressLine i n test_name)] of
                 (Some x1, out1) \<Rightarrow> (Some x1, self, out1)
               | (None, out1) \<Rightarrow>
                   (case run_single_test_raw self (child e i) test_case of
                      (Inl x2, evs) \<Rightarrow> (Some x2, self, out1 @ evs)
                    | (Inr (ok, act, err), evs) \<Rightarrow>
                        let r1 = (results self)\<lparr>total_count := total_count (results self) + 1\<rparr>
                        in if ok
                           then (case emit pr (out1 @ evs) [Print PassedLine] of
                                   (raised, out2) \<Rightarrow>
                                     (raised, self\<lparr>results := r1\<lparr>passed := passed r1 + 1\<rparr>\<rparr>,
                                      out2))
                           else
                             let r2 = r1\<lparr>failed := failed r1 + 1\<rparr>
                             in case emit pr (out1 @ evs) [Print FailedLine] of
                                  (Some x3, out2) \<Rightarrow> (Some x3, self\<lparr>results := r2\<rparr>, out2)
                                | (None, out2) \<Rightarrow>
                                    let failure =
                                          \<lparr>test = test_name,
                                           input = text_of (jget test_case (lit ''input'') []),
                                           expected =
                                             text_of (jget test_case (lit ''expected'') []),
                                           actual = act, error = err\<rparr>;
                                        r3 = r2\<lparr>failures := failures r2 @ [failure]\<rparr>
                                    in if verbose self = Some True
                                       then (case emit pr out2 (print_failure_details failure) of
                                               (raised, out3) \<Rightarrow>
                                                 (raised, self\<lparr>results := r3\<rparr>, out3))
                                       else (None, self\<lparr>results := r3\<rparr>, out2)))"

fun run_loop_raw ::
  "env \<Rightarrow> (line \<Rightarrow> exn option) \<Rightarrow> nat \<Rightarrow> (nat \<times> element) list \<Rightarrow> runner \<times> event list \<Rightarrow>
     exn option \<times> runner \<times> event list" where
  "run_loop_raw e pr n [] st = (None, st)"
| "run_loop_raw e pr n (x # xs) st =
     (case run_case_raw e pr n st x of
        (Some raised, st1) \<Rightarrow> (Some raised, st1)
      | (None, st1) \<Rightarrow> run_loop_raw e pr n xs st1)"

definition run_all_tests_raw ::
  "env \<Rightarrow> (pystr \<Rightarrow> exn + raw_document) \<Rightarrow> (line \<Rightarrow> exn option) \<Rightarrow> runner \<Rightarrow>
     exn option \<times> runner \<times> event list" where
  "run_all_tests_raw e load pr self =
     (case load (tests_file self) of
        Inl x \<Rightarrow> (Some x, self, [])
      | Inr tests \<Rightarrow>
          (case tests (lit ''test_cases'') of
             None \<Rightarrow> (Some (KeyError (lit ''test_cases'')), self, [])
           | Some cases \<Rightarrow>
               (case emit pr [] [Print (RunningLine (length cases))] of
                  (Some x, out) \<Rightarrow> (Some x, self, out)
                | (None, out) \<Rightarrow>
                    run_loop_raw e pr (length cases) (enumerate 1 cases) (self, out))))"

text \<open>
  \<open>main\<close> on any suite. The \<open>print\<close> of the \<open>except\<close> clause is taken not to raise; if it
  does, Python ends with status 1 as well.
\<close>

definition main_raw ::
  "env \<Rightarrow> (pystr \<Rightarrow> exn + raw_document) \<Rightarrow> (line \<Rightarrow> exn option) \<Rightarrow>
     pystr \<Rightarrow> pystr \<Rightarrow> bool \<Rightarrow> pystr \<Rightarrow> int \<times> event list" where
  "main_raw e load pr binary tests verbose_arg timeout_arg =
     (case init e binary tests timeout_arg of
        Inl x \<Rightarrow> (1, [Print (FatalLine (str_exn x))])
      | Inr runner0 \<Rightarrow>
          (case run_all_tests_raw e load pr (runner0\<lparr>verbose := Some verbose_arg\<rparr>) of
             (Some x, runner1, out) \<Rightarrow> (1, out @ [Print (FatalLine (str_exn x))])
           | (None, runner1, out) \<Rightarrow>
               (case print_summary runner1 of (exit_code, out2) \<Rightarrow>
                  (case emit pr out out2 of
                     (Some x, out3) \<Rightarrow> (1, out3 @ [Print (FatalLine (str_exn x))])
                   | (None, out3) \<Rightarrow> (exit_code, out3)))))"

section \<open>Definitions used to state the properties\<close>

text \<open>
  The trimming the specification describes: whitespace is removed at the end of the
  string only.
\<close>

definition spec_trim_trailing :: "pystr \<Rightarrow> pystr" where
  "spec_trim_trailing s = rev (dropWhile isspace (rev s))"

text \<open>The results \<open>__init__\<close> stores in a new runner.\<close>

definition fresh_results :: results where
  "fresh_results = \<lparr>passed = 0, failed = 0, total_count = 0, failures = []\<rparr>"

text \<open>
  The failure record the loop appends for the \<open>i\<close>-th test case, if that case does
  not pass.
\<close>

definition failure_of :: "env \<Rightarrow> runner \<Rightarrow> nat \<times> test_case \<Rightarrow> failure_info option" where
  "failure_of e self x =
     (case x of (i, test_case) \<Rightarrow>
        case fst (run_single_test self (child e i) test_case) of (ok, act, err) \<Rightarrow>
          if ok then None
          else Some \<lparr>test = get test_case (lit ''name'') (lit ''Test '' @ str i),
                     input = get test_case (lit ''input'') [],
                     expected = get test_case (lit ''expected'') [],
                     actual = act, error = err\<rparr>)"

text \<open>The events of a run that act on a child process, with the printed lines removed.\<close>

fun is_print :: "event \<Rightarrow> bool" where
  "is_print (Print l) = True"
| "is_print Popen = False"
| "is_print (Communicate s) = False"
| "is_print Kill = False"

definition process_events :: "event list \<Rightarrow> event list" where
  "process_events evs = filter (\<lambda>ev. \<not> is_print ev) evs"


text \<open>
  A suite whose fields are strings, seen as a suite \<open>json.load\<close> returns.
\<close>

definition lift_case :: "test_case \<Rightarrow> (pystr \<rightharpoonup> json)" where
  "lift_case tc = (\<lambda>k. map_option JString (tc k))"

definition lift_load :: "(pystr \<Rightarrow> exn + document) \<Rightarrow> pystr \<Rightarrow> exn + raw_document" where
  "lift_load load p =
     (case load p of
        Inl x \<Rightarrow> Inl x
      | Inr d \<Rightarrow> Inr (\<lambda>k. map_option (map (\<lambda>tc. Case (lift_case tc))) (d k)))"

section \<open>Example inputs\<close>

text \<open>A subject binary that copies its standard input to its standard output.\<close>

definition cat :: "nat \<Rightarrow> pystr \<Rightarrow> proc_outcome" where
  "cat i inp = Completed inp [] 0"

text \<open>
  A subject binary that cannot be started for the first test case, hangs on the third,
  and otherwise copies its input and writes a warning to standard error.
\<close>

definition flaky :: "nat \<Rightarrow> pystr \<Rightarrow> proc_outcome" where
  "flaky i inp =
     (if i = 1 then PopenRaised (lit ''[Errno 8] Exec format error'')
      else if i = 3 then TimeoutExpired
      else Completed inp (lit ''warning'') 0)"

definition example_runner :: runner where
  "example_runner =
     \<lparr>binary_path = lit ''/opt/prog'', tests_file = lit ''tests.json'', timeout = lit ''5.0'',
      results = \<lparr>passed = 0, failed = 0, total_count = 0, failures = []\<rparr>,
      verbose = Some False\<rparr>"

text \<open>A test case whose input, and so the output of \<open>cat\<close>, starts with a space.\<close>

definition leading_space_case :: test_case where
  "leading_space_case = [lit ''input'' \<mapsto> lit '' a'', lit ''expected'' \<mapsto> lit ''a'']"

text \<open>
  A test case with the input \<open>" b\n"\<close> and the expected output \<open>"a \n"\<close>, and one with
  no field at all.
\<close>

definition trailing_space_case :: test_case where
  "trailing_space_case =
     [lit ''name'' \<mapsto> lit ''padded'', lit ''input'' \<mapsto> [32, 98, 10],
      lit ''expected'' \<mapsto> [97, 32, 10]]"

definition empty_case :: test_case where
  "empty_case = Map.empty"

text \<open>
  A suite of five cases of which \<open>cat\<close> fails the first, the third and the fifth; the
  first and the third have the same name, the second and the fifth have none.
\<close>

definition five_cases :: "test_case list" where
  "five_cases =
     [[lit ''name'' \<mapsto> lit ''dup'', lit ''input'' \<mapsto> lit ''1'', lit ''expected'' \<mapsto> lit ''x''],
      [lit ''input'' \<mapsto> lit ''2'', lit ''expected'' \<mapsto> lit ''2''],
      [lit ''name'' \<mapsto> lit ''dup'', lit ''input'' \<mapsto> lit ''3'', lit ''expected'' \<mapsto> lit ''y''],
      [lit ''name'' \<mapsto> lit ''four'', lit ''input'' \<mapsto> lit ''4'', lit ''expected'' \<mapsto> lit ''4''],
      [lit ''input'' \<mapsto> lit ''5'', lit ''expected'' \<mapsto> lit ''6'']]"

definition example_env :: env where
  "example_env =
     \<lparr>path_exists = (\<lambda>p. True),
      json_load = (\<lambda>p. Inr [lit ''test_cases'' \<mapsto> five_cases]),
      child = cat\<rparr>"

definition flaky_env :: env where
  "flaky_env = example_env\<lparr>child := flaky\<rparr>"

definition missing_binary_env :: env where
  "missing_binary_env = example_env\<lparr>path_exists := (\<lambda>p. p = lit ''tests.json'')\<rparr>"

definition unreadable_env :: env where
  "unreadable_env =
     example_env\<lparr>json_load := (\<lambda>p. Inl (Exception (lit ''Expecting value'')))\<rparr>"

definition empty_suite_env :: env where
  "empty_suite_env = example_env\<lparr>json_load := (\<lambda>p. Inr [lit ''test_cases'' \<mapsto> []])\<rparr>"

text \<open>A standard output on which no \<open>print\<close> raises.\<close>

definition never_raises :: "line \<Rightarrow> exn option" where
  "never_raises l = None"

text \<open>
  A standard output encoded in UTF-8: \<open>print\<close> raises \<open>UnicodeEncodeError\<close> for a text
  with a lone surrogate (U+D800 to U+DFFF). The lines that go through \<open>repr\<close> escape
  surrogates; the name and the error messages are printed as they are. The message of
  the exception is abridged.
\<close>

definition has_surrogate :: "pystr \<Rightarrow> bool" where
  "has_surrogate s = (\<exists>c \<in> set s. 55296 \<le> c \<and> c \<le> 57343)"

definition utf8_stdout :: "line \<Rightarrow> exn option" where
  "utf8_stdout l =
     (let raw_text = (case l of
                        ProgressLine i n nm \<Rightarrow> nm
                      | DetailsHeader nm \<Rightarrow> nm
                      | Bullet nm \<Rightarrow> nm
                      | ErrorLine k m \<Rightarrow> m
                      | FatalLine m \<Rightarrow> m
                      | _ \<Rightarrow> [])
      in if has_surrogate raw_text
         then Some (UnicodeEncodeError (lit ''surrogates not allowed''))
         else None)"

text \<open>
  Two suites of three cases for \<open>cat\<close>: in the first, the second case has the number 5
  as its expected value; in the second, the name of the second case is a lone surrogate,
  which \<open>json.load\<close> reads from the escape of U+D800. Every other field is such that the
  case passes.
\<close>

definition bad_expected_cases :: "element list" where
  "bad_expected_cases =
     [Case [lit ''name'' \<mapsto> JString (lit ''a''), lit ''input'' \<mapsto> JString (lit ''1''),
            lit ''expected'' \<mapsto> JString (lit ''1'')],
      Case [lit ''name'' \<mapsto> JString (lit ''b''), lit ''input'' \<mapsto> JString (lit ''2''),
            lit ''expected'' \<mapsto> JOther (lit ''int'') (lit ''5'')],
      Case [lit ''name'' \<mapsto> JString (lit ''c''), lit ''input'' \<mapsto> JString (lit ''3''),
            lit ''expected'' \<mapsto> JString (lit ''3'')]]"

definition bad_expected_load :: "pystr \<Rightarrow> exn + raw_document" where
  "bad_expected_load p = Inr [lit ''test_cases'' \<mapsto> bad_expected_cases]"

definition surrogate_name_cases :: "element list" where
  "surrogate_name_cases =
     [Case [lit ''name'' \<mapsto> JString (lit ''a''), lit ''input'' \<mapsto> JString (lit ''1''),
            lit ''expected'' \<mapsto> JString (lit ''1'')],
      Case [lit ''name'' \<mapsto> JString [55296], lit ''input'' \<mapsto> JString (lit ''2''),
            lit ''expected'' \<mapsto> JString (lit ''2'')],
      Case [lit ''name'' \<mapsto> JString (lit ''c''), lit ''input'' \<mapsto> JString (lit ''3''),
            lit ''expected'' \<mapsto> JString (lit ''3'')]]"

definition surrogate_name_load :: "pystr \<Rightarrow> exn + raw_document" where
  "surrogate_name_load p = Inr [lit ''test_cases'' \<mapsto> surrogate_name_cases]"

section \<open>Stripping\<close>

lemma dropWhile_snoc_keep: "\<not> P x \<Longrightarrow> dropWhile P (ys @ [x]) = dropWhile P ys @ [x]"
  by (induction ys) auto

text \<open>
  \<open>strip\<close> is the specification's trailing trim followed by the removal of the leading
  whitespace.
\<close>

lemma strip_eq_trim: "strip s = dropWhile isspace (spec_trim_trailing s)"
proof (induction s)
  case Nil
  show ?case by (simp add: strip_def spec_trim_trailing_def)
next
  case (Cons c s)
  show ?case
  proof (cases "isspace c")
    case False
    then show ?thesis
      by (simp add: strip_def spec_trim_trailing_def dropWhile_snoc_keep)
  next
    case True
    show ?thesis
    proof (cases "\<forall>x\<in>set s. isspace x")
      case all: True
      with True have d: "dropWhile isspace (c # s) = []" by simp
      have l: "strip (c # s) = []" unfolding strip_def d by simp
      from all True have "dropWhile isspace (rev (c # s)) = []" by simp
      then have "spec_trim_trailing (c # s) = []"
        unfolding spec_trim_trailing_def by simp
      with l show ?thesis by simp
    next
      case False
      then obtain x where x: "x \<in> set (rev s)" "\<not> isspace x" by auto
      then have "dropWhile isspace (rev s @ [c]) = dropWhile isspace (rev s) @ [c]"
        by (rule dropWhile_append1)
      with True Cons show ?thesis
        by (simp add: strip_def spec_trim_trailing_def)
    qed
  qed
qed

section \<open>The comparison of actual and expected output\<close>

text \<open>
  C1, as the specification states it: the outcome is Passed exactly when the strings
  are equal after their trailing whitespace is removed. It fails for \<open>cat\<close> on the input
  \<open>" a"\<close> with the expected output \<open>"a"\<close>: the two differ after the trailing trim, and
  the test passes.
\<close>

theorem trailing_trim_only_counterexample:
  "cat 1 (get leading_space_case (lit ''input'') []) = Completed (lit '' a'') [] 0 \<and>
   get leading_space_case (lit ''expected'') [] = lit ''a'' \<and>
   spec_trim_trailing (lit '' a'') \<noteq> spec_trim_trailing (lit ''a'') \<and>
   fst (run_single_test example_runner (cat 1) leading_space_case) =
     (True, Some (lit ''a''), None)"
  by (simp add: run_single_test_def cat_def leading_space_case_def get_def strip_def
      spec_trim_trailing_def lit_def isspace_def)

text \<open>
  C1, amended: when the child completes, both its standard output and the expected
  string have their trailing and their leading whitespace removed, and the results are
  compared by equality. The test passes exactly when they are equal, and otherwise the
  outcome is a mismatch that carries the stripped output.
\<close>

theorem run_single_test_compares_stripped:
  assumes "proc (get test_case (lit ''input'') []) = Completed actualRaw stderr rc"
  shows "fst (run_single_test self proc test_case) =
     (let a = dropWhile isspace (spec_trim_trailing actualRaw);
          b = dropWhile isspace (spec_trim_trailing (get test_case (lit ''expected'') []))
      in if a = b then (True, Some a, None)
         else (False, Some a, Some (lit ''Output mismatch'')))"
  using assms by (simp add: run_single_test_def Let_def strip_eq_trim)

theorem run_single_test_compares_stripped_witness:
  "cat 1 (get leading_space_case (lit ''input'') []) = Completed (lit '' a'') [] 0 \<and>
   fst (run_single_test example_runner (cat 1) leading_space_case) =
     (True, Some (lit ''a''), None)"
  using run_single_test_compares_stripped
    [of "cat 1" leading_space_case "lit '' a''" "[]" 0 example_runner]
  by (simp add: cat_def leading_space_case_def get_def spec_trim_trailing_def lit_def
      isspace_def)

section \<open>The decimal numeral of the index\<close>







section \<open>The loop of run_all_tests\<close>

text \<open>
  \<open>run_single_test\<close> reads the runner's timeout only, and no pass of the loop changes
  it.
\<close>

lemma run_single_test_cong:
  "timeout a = timeout b \<Longrightarrow> run_single_test a proc tc = run_single_test b proc tc"
  by (simp add: run_single_test_def Let_def split: proc_outcome.splits)

lemma failure_of_cong: "timeout a = timeout b \<Longrightarrow> failure_of e a x = failure_of e b x"
  by (simp add: failure_of_def run_single_test_cong [of a b])

lemma run_case_passed:
  assumes "run_single_test self (child e i) tc = ((True, act, err), evs)"
  shows "run_case e n (self, out) (i, tc) =
     (self\<lparr>results := (results self)\<lparr>total_count := total_count (results self) + 1,
                                      passed := passed (results self) + 1\<rparr>\<rparr>,
      out @ [Print (ProgressLine i n (get tc (lit ''name'') (lit ''Test '' @ str i)))] @ evs
        @ [Print PassedLine])"
  using assms by (simp add: run_case_def Let_def)

lemma run_case_failed:
  assumes "run_single_test self (child e i) tc = ((False, act, err), evs)"
  shows "run_case e n (self, out) (i, tc) =
     (self\<lparr>results := (results self)\<lparr>total_count := total_count (results self) + 1,
          failed := failed (results self) + 1,
          failures := failures (results self) @
            [\<lparr>test = get tc (lit ''name'') (lit ''Test '' @ str i),
              input = get tc (lit ''input'') [],
              expected = get tc (lit ''expected'') [],
              actual = act, error = err\<rparr>]\<rparr>\<rparr>,
      out @ [Print (ProgressLine i n (get tc (lit ''name'') (lit ''Test '' @ str i)))] @ evs
        @ [Print FailedLine]
        @ (if verbose self = Some True
           then print_failure_details
                  \<lparr>test = get tc (lit ''name'') (lit ''Test '' @ str i),
                   input = get tc (lit ''input'') [],
                   expected = get tc (lit ''expected'') [],
                   actual = act, error = err\<rparr>
           else []))"
  using assms by (simp add: run_case_def Let_def)

lemma run_case_results:
  assumes "run_case e n (self, out) x = (self', out')"
  shows "timeout self' = timeout self \<and> verbose self' = verbose self \<and>
     total_count (results self') = total_count (results self) + 1 \<and>
     (case failure_of e self x of
        None \<Rightarrow> passed (results self') = passed (results self) + 1 \<and>
                failed (results self') = failed (results self) \<and>
                failures (results self') = failures (results self)
      | Some f \<Rightarrow> passed (results self') = passed (results self) \<and>
                  failed (results self') = failed (results self) + 1 \<and>
                  failures (results self') = failures (results self) @ [f])"
proof -
  obtain i tc where x: "x = (i, tc)" by (cases x)
  obtain ok act err evs where r: "run_single_test self (child e i) tc = ((ok, act, err), evs)"
    by (metis prod.exhaust)
  show ?thesis
  proof (cases ok)
    case True
    with r assms x show ?thesis
      by (auto simp: run_case_passed failure_of_def)
  next
    case False
    with r assms x show ?thesis
      by (auto simp: run_case_failed failure_of_def)
  qed
qed

lemma foldl_run_case:
  "foldl (run_case e n) (self, out) xs = (self', out') \<Longrightarrow>
     timeout self' = timeout self \<and> verbose self' = verbose self \<and>
     total_count (results self') = total_count (results self) + int (length xs) \<and>
     failures (results self') = failures (results self) @ List.map_filter (failure_of e self) xs \<and>
     failed (results self') =
       failed (results self) + int (length (List.map_filter (failure_of e self) xs)) \<and>
     passed (results self') + int (length (List.map_filter (failure_of e self) xs)) =
       passed (results self) + int (length xs)"
proof (induction xs arbitrary: self out)
  case Nil
  then show ?case by simp
next
  case (Cons x xs)
  obtain s1 o1 where s1: "run_case e n (self, out) x = (s1, o1)" by (cases "run_case e n (self, out) x")
  note rc = run_case_results [OF s1]
  from rc have t: "timeout s1 = timeout self" by simp
  have fo: "failure_of e s1 = failure_of e self"
    by (rule ext) (rule failure_of_cong [OF t])
  from Cons.prems s1 have "foldl (run_case e n) (s1, o1) xs = (self', out')" by simp
  note ih = Cons.IH [OF this, unfolded fo]
  show ?case
  proof (cases "failure_of e self x")
    case None
    with rc ih show ?thesis by simp
  next
    case (Some f)
    with rc ih show ?thesis by simp
  qed
qed

lemma run_all_tests_loaded:
  assumes "load_tests e self = Inr doc" and "doc (lit ''test_cases'') = Some cases"
  shows "run_all_tests e self =
     Inr (foldl (run_case e (length cases)) (self, [Print (RunningLine (length cases))])
            (enumerate 1 cases))"
  using assms by (simp add: run_all_tests_def)

lemma run_case_append_failure:
  assumes "\<not> fst (fst (run_single_test self (child e i) tc))"
  shows "results (fst (run_case e n (self, out) (i, tc))) =
     (results self)\<lparr>total_count := total_count (results self) + 1,
        failed := failed (results self) + 1,
        failures := failures (results self) @
          [\<lparr>test = get tc (lit ''name'') (lit ''Test '' @ str i),
            input = get tc (lit ''input'') [],
            expected = get tc (lit ''expected'') [],
            actual = fst (snd (fst (run_single_test self (child e i) tc))),
            error = snd (snd (fst (run_single_test self (child e i) tc)))\<rparr>]\<rparr>"
proof -
  obtain ok act err evs where r: "run_single_test self (child e i) tc = ((ok, act, err), evs)"
    by (metis prod.exhaust)
  with assms have "\<not> ok" by simp
  with r show ?thesis by (simp add: run_case_failed)
qed

lemma process_events_run_single_test:
  "process_events (snd (run_single_test self proc tc)) = snd (run_single_test self proc tc)"
  by (simp add: run_single_test_def process_events_def Let_def split: proc_outcome.splits)

lemma process_events_details: "process_events (print_failure_details f) = []"
  by (simp add: print_failure_details_def process_events_def split: option.splits)

lemma process_events_append: "process_events (a @ b) = process_events a @ process_events b"
  by (simp add: process_events_def)

lemma process_events_run_case:
  "process_events (snd (run_case e n (self, out) (i, tc))) =
     process_events out @ snd (run_single_test self (child e i) tc)"
proof -
  obtain ok act err evs where r: "run_single_test self (child e i) tc = ((ok, act, err), evs)"
    by (metis prod.exhaust)
  from process_events_run_single_test [of self "child e i" tc] r
  have p: "filter (\<lambda>ev. \<not> is_print ev) evs = evs" by (simp add: process_events_def)
  show ?thesis
  proof (cases ok)
    case True
    with r p show ?thesis
      by (simp add: run_case_passed process_events_def)
  next
    case False
    with r p show ?thesis
      by (simp add: run_case_failed process_events_def
          process_events_details [unfolded process_events_def])
  qed
qed

lemma process_events_foldl:
  "foldl (run_case e n) (self, out) xs = (self', out') \<Longrightarrow>
     process_events out' =
       process_events out @
       concat (map (\<lambda>x. snd (run_single_test self (child e (fst x)) (snd x))) xs)"
proof (induction xs arbitrary: self out)
  case Nil
  then show ?case by simp
next
  case (Cons x xs)
  obtain i tc where x: "x = (i, tc)" by (cases x)
  obtain s1 o1 where s1: "run_case e n (self, out) x = (s1, o1)"
    by (cases "run_case e n (self, out) x")
  from run_case_results [OF s1] have t: "timeout s1 = timeout self" by simp
  have c: "run_single_test s1 p c = run_single_test self p c" for p c
    by (rule run_single_test_cong [OF t])
  from process_events_run_case [of e n self out i tc] s1 x
  have o1: "process_events o1 = process_events out @ snd (run_single_test self (child e i) tc)"
    by simp
  from Cons.prems s1 have "foldl (run_case e n) (s1, o1) xs = (self', out')" by simp
  from Cons.IH [OF this] o1 x show ?case by (simp add: c)
qed

lemmas example_defs = five_cases_def failure_of_def example_env_def example_runner_def cat_def
  run_single_test_def get_def strip_def lit_def isspace_def str.simps Let_def flaky_def
  flaky_env_def

section \<open>Counts after a run\<close>

text \<open>
  C2: a runner with the results its constructor stores, run over a suite that loads,
  finishes \<open>run_all_tests\<close> with \<open>passed + failed = total\<close>, \<open>total\<close> the number of
  test cases in the suite, and as many failure records as \<open>failed\<close> counts; for the empty
  suite the three counts are 0.
\<close>

theorem counts_after_run:
  assumes "results self = fresh_results"
      and "load_tests e self = Inr doc" and "doc (lit ''test_cases'') = Some cases"
  shows "\<exists>self' out. run_all_tests e self = Inr (self', out) \<and>
     passed (results self') + failed (results self') = total_count (results self') \<and>
     total_count (results self') = int (length cases) \<and>
     int (length (failures (results self'))) = failed (results self') \<and>
     (cases = [] \<longrightarrow> passed (results self') = 0 \<and> failed (results self') = 0 \<and>
        total_count (results self') = 0)"
proof -
  obtain self' out where f: "foldl (run_case e (length cases))
      (self, [Print (RunningLine (length cases))]) (enumerate 1 cases) = (self', out)"
    by (metis prod.exhaust)
  note inv = foldl_run_case [OF f]
  from assms(1) have z: "passed (results self) = 0" "failed (results self) = 0"
    "total_count (results self) = 0" "failures (results self) = []"
    by (simp_all add: fresh_results_def)
  from inv z have "passed (results self') + failed (results self') = total_count (results self')"
    and "total_count (results self') = int (length cases)"
    and "int (length (failures (results self'))) = failed (results self')"
    by simp_all
  moreover from inv z have "cases = [] \<longrightarrow> passed (results self') = 0 \<and>
     failed (results self') = 0 \<and> total_count (results self') = 0"
    by auto
  moreover have "run_all_tests e self = Inr (self', out)"
    using run_all_tests_loaded [OF assms(2,3)] f by simp
  ultimately show ?thesis by blast
qed

theorem counts_after_run_witness:
  "results example_runner = fresh_results \<and>
   load_tests example_env example_runner = Inr [lit ''test_cases'' \<mapsto> five_cases] \<and>
   [lit ''test_cases'' \<mapsto> five_cases] (lit ''test_cases'') = Some five_cases \<and>
   (\<exists>self' out. run_all_tests example_env example_runner = Inr (self', out) \<and>
      passed (results self') + failed (results self') = 5 \<and>
      total_count (results self') = 5 \<and>
      int (length (failures (results self'))) = failed (results self'))"
proof -
  have r: "results example_runner = fresh_results"
    by (simp add: example_runner_def fresh_results_def)
  have l: "load_tests example_env example_runner = Inr [lit ''test_cases'' \<mapsto> five_cases]"
    by (simp add: load_tests_def example_env_def)
  have d: "[lit ''test_cases'' \<mapsto> five_cases] (lit ''test_cases'') = Some five_cases"
    by simp
  have n: "int (length five_cases) = 5" by (simp add: five_cases_def)
  from counts_after_run [OF r l d] r l d show ?thesis
    unfolding n by auto
qed

section \<open>The exit status\<close>

text \<open>
  C3: \<open>print_summary\<close> returns 0 when \<open>failed\<close> is 0 and 1 otherwise, and \<open>main\<close>
  exits with that value after a completed run. When the binary or the suite file does
  not exist, or the suite file cannot be loaded, \<open>main\<close> exits with 1 and no child
  process has been spawned.
\<close>

theorem exit_status:
  "fst (print_summary self) = (if failed (results self) = 0 then 0 else 1) \<and>
   (init e binary tests t = Inr r0 \<and>
    run_all_tests e (r0\<lparr>verbose := Some v\<rparr>) = Inr (r1, out) \<longrightarrow>
      main e binary tests v t =
        (if failed (results r1) = 0 then 0 else 1, out @ snd (print_summary r1))) \<and>
   (\<not> path_exists e binary \<or> \<not> path_exists e tests \<or> (\<exists>x. json_load e tests = Inl x) \<longrightarrow>
      fst (main e binary tests v t) = 1 \<and>
      process_events (snd (main e binary tests v t)) = [])"
proof (intro conjI impI)
  show "fst (print_summary self) = (if failed (results self) = 0 then 0 else 1)"
    by (simp add: print_summary_def Let_def)
next
  assume "init e binary tests t = Inr r0 \<and>
    run_all_tests e (r0\<lparr>verbose := Some v\<rparr>) = Inr (r1, out)"
  then show "main e binary tests v t =
        (if failed (results r1) = 0 then 0 else 1, out @ snd (print_summary r1))"
    by (simp add: main_def print_summary_def Let_def)
next
  assume a: "\<not> path_exists e binary \<or> \<not> path_exists e tests \<or> (\<exists>x. json_load e tests = Inl x)"
  show "fst (main e binary tests v t) = 1"
    using a by (auto simp: main_def init_def run_all_tests_def load_tests_def)
  show "process_events (snd (main e binary tests v t)) = []"
    using a by (auto simp: main_def init_def run_all_tests_def load_tests_def process_events_def)
qed

theorem exit_status_witness:
  "fst (main missing_binary_env (lit ''/opt/prog'') (lit ''tests.json'') False (lit ''5.0'')) = 1 \<and>
   process_events
     (snd (main missing_binary_env (lit ''/opt/prog'') (lit ''tests.json'') False (lit ''5.0''))) = [] \<and>
   fst (main unreadable_env (lit ''/opt/prog'') (lit ''tests.json'') False (lit ''5.0'')) = 1 \<and>
   main empty_suite_env (lit ''/opt/prog'') (lit ''tests.json'') False (lit ''5.0'') =
     (0, [Print (RunningLine 0), Print Rule, Print (TotalLine 0), Print (PassedCount 0),
          Print (FailedCount 0), Print Rule])"
proof -
  have m: "\<not> path_exists missing_binary_env (lit ''/opt/prog'')"
    by (simp add: missing_binary_env_def example_env_def lit_def)
  have u: "\<exists>x. json_load unreadable_env (lit ''tests.json'') = Inl x"
    by (simp add: unreadable_env_def example_env_def)
  have i: "init empty_suite_env (lit ''/opt/prog'') (lit ''tests.json'') (lit ''5.0'') =
      Inr (example_runner\<lparr>verbose := None\<rparr>)"
    by (simp add: init_def empty_suite_env_def example_env_def example_runner_def)
  have r: "run_all_tests empty_suite_env (example_runner\<lparr>verbose := None, verbose := Some False\<rparr>) =
      Inr (example_runner, [Print (RunningLine 0)])"
    by (simp add: run_all_tests_def load_tests_def empty_suite_env_def example_env_def
        example_runner_def)
  have s: "print_summary example_runner =
      (0, [Print Rule, Print (TotalLine 0), Print (PassedCount 0), Print (FailedCount 0),
           Print Rule])"
    by (simp add: print_summary_def example_runner_def)
  have f: "failed (results example_runner) = 0" by (simp add: example_runner_def)
  have a: "fst (main missing_binary_env (lit ''/opt/prog'') (lit ''tests.json'') False (lit ''5.0'')) = 1 \<and>
   process_events
     (snd (main missing_binary_env (lit ''/opt/prog'') (lit ''tests.json'') False (lit ''5.0''))) = []"
    using exit_status [of example_runner missing_binary_env "lit ''/opt/prog''" "lit ''tests.json''"
      "lit ''5.0''" example_runner False example_runner "[]"] m by blast
  have b: "fst (main unreadable_env (lit ''/opt/prog'') (lit ''tests.json'') False (lit ''5.0'')) = 1"
    using exit_status [of example_runner unreadable_env "lit ''/opt/prog''" "lit ''tests.json''"
      "lit ''5.0''" example_runner False example_runner "[]"] u by blast
  have c: "main empty_suite_env (lit ''/opt/prog'') (lit ''tests.json'') False (lit ''5.0'') =
     (if failed (results example_runner) = 0 then 0 else 1,
      [Print (RunningLine 0)] @ snd (print_summary example_runner))"
    using exit_status [of example_runner empty_suite_env "lit ''/opt/prog''" "lit ''tests.json''"
      "lit ''5.0''" "example_runner\<lparr>verbose := None\<rparr>" False example_runner
      "[Print (RunningLine 0)]"] i r by blast
  from a b c show ?thesis unfolding s f by simp
qed

section \<open>Exceptions of a single test\<close>

text \<open>
  On a suite whose fields are strings, an exception that \<open>Popen\<close> or \<open>communicate\<close>
  raises for one test case is turned into the result \<open>(False, None, "Error: " + str(e))\<close>
  by \<open>run_single_test\<close> itself. Whatever the children do, a run over a suite that loads
  returns, counts every test case, and its process events are those of every test case
  of the suite, in order. The exceptions meant are those the \<open>except Exception\<close> clause of
  the source covers.
\<close>

theorem per_test_exceptions_are_contained:
  "((proc (get tc (lit ''input'') []) = PopenRaised m \<or>
     proc (get tc (lit ''input'') []) = CommunicateRaised m) \<longrightarrow>
      fst (run_single_test self proc tc) = (False, None, Some (lit ''Error: '' @ m))) \<and>
   (load_tests e self = Inr doc \<and> doc (lit ''test_cases'') = Some cases \<longrightarrow>
      (\<exists>self' out. run_all_tests e self = Inr (self', out) \<and>
         total_count (results self') = total_count (results self) + int (length cases) \<and>
         process_events out =
           concat (map (\<lambda>x. snd (run_single_test self (child e (fst x)) (snd x)))
                     (enumerate 1 cases))))"
proof (intro conjI impI)
  assume "proc (get tc (lit ''input'') []) = PopenRaised m \<or>
     proc (get tc (lit ''input'') []) = CommunicateRaised m"
  then show "fst (run_single_test self proc tc) = (False, None, Some (lit ''Error: '' @ m))"
    by (auto simp: run_single_test_def Let_def)
next
  assume a: "load_tests e self = Inr doc \<and> doc (lit ''test_cases'') = Some cases"
  obtain self' out where f: "foldl (run_case e (length cases))
      (self, [Print (RunningLine (length cases))]) (enumerate 1 cases) = (self', out)"
    by (metis prod.exhaust)
  from foldl_run_case [OF f]
  have "total_count (results self') = total_count (results self) + int (length cases)"
    by simp
  moreover from process_events_foldl [OF f]
  have "process_events out =
      concat (map (\<lambda>x. snd (run_single_test self (child e (fst x)) (snd x)))
                (enumerate 1 cases))"
    by (simp add: process_events_def)
  moreover have "run_all_tests e self = Inr (self', out)"
    using run_all_tests_loaded [of e self doc cases] a f by simp
  ultimately show "\<exists>self' out. run_all_tests e self = Inr (self', out) \<and>
         total_count (results self') = total_count (results self) + int (length cases) \<and>
         process_events out =
           concat (map (\<lambda>x. snd (run_single_test self (child e (fst x)) (snd x)))
                     (enumerate 1 cases))"
    by blast
qed

theorem per_test_exceptions_are_contained_witness:
  "flaky 1 (get (hd five_cases) (lit ''input'') []) =
     PopenRaised (lit ''[Errno 8] Exec format error'') \<and>
   fst (run_single_test example_runner (flaky 1) (hd five_cases)) =
     (False, None, Some (lit ''Error: [Errno 8] Exec format error'')) \<and>
   load_tests flaky_env example_runner = Inr [lit ''test_cases'' \<mapsto> five_cases] \<and>
   (\<exists>self' out. run_all_tests flaky_env example_runner = Inr (self', out) \<and>
      total_count (results self') = 5 \<and>
      process_events out =
        [Popen,
         Popen, Communicate (lit ''2''),
         Popen, Communicate (lit ''3''), Kill,
         Popen, Communicate (lit ''4''),
         Popen, Communicate (lit ''5'')])"
proof -
  have l: "load_tests flaky_env example_runner = Inr [lit ''test_cases'' \<mapsto> five_cases]"
    by (simp add: load_tests_def flaky_env_def example_env_def)
  have d: "[lit ''test_cases'' \<mapsto> five_cases] (lit ''test_cases'') = Some five_cases"
    by simp
  have p: "flaky 1 (get (hd five_cases) (lit ''input'') []) =
     PopenRaised (lit ''[Errno 8] Exec format error'')"
    by (simp add: flaky_def)
  have c: "concat (map (\<lambda>x. snd (run_single_test example_runner (child flaky_env (fst x)) (snd x)))
                     (enumerate 1 five_cases)) =
        [Popen,
         Popen, Communicate (lit ''2''),
         Popen, Communicate (lit ''3''), Kill,
         Popen, Communicate (lit ''4''),
         Popen, Communicate (lit ''5'')]"
    by (simp add: example_defs)
  have z: "total_count (results example_runner) = 0" "int (length five_cases) = 5"
    by (simp_all add: example_runner_def five_cases_def)
  have e: "lit ''Error: '' @ lit ''[Errno 8] Exec format error'' =
      lit ''Error: [Errno 8] Exec format error''"
    by (simp add: lit_def)
  from per_test_exceptions_are_contained
    [of "flaky 1" "hd five_cases" "lit ''[Errno 8] Exec format error''" example_runner
        flaky_env "[lit ''test_cases'' \<mapsto> five_cases]" five_cases] p l d
  show ?thesis unfolding c z e by auto
qed

section \<open>Exceptions raised outside the try\<close>

text \<open>
  On suites whose fields are strings and a standard output on which \<open>print\<close> does not
  raise, the functions on any suite are the functions defined first.
\<close>

lemma emit_never_raises: "emit never_raises out evs = (None, out @ evs)"
  by (induction never_raises out evs rule: emit.induct) (simp_all add: never_raises_def)

lemma jget_lift: "jget (lift_case tc) k d = JString (get tc k d)"
  by (simp add: jget_def get_def lift_case_def split: option.splits)

lemma run_single_test_raw_lift:
  "run_single_test_raw self proc (lift_case tc) =
     (Inr (fst (run_single_test self proc tc)), snd (run_single_test self proc tc))"
  by (simp add: run_single_test_raw_def run_single_test_def jget_lift Let_def
      split: proc_outcome.splits)

lemma run_case_raw_lift:
  "run_case_raw e never_raises n st (i, Case (lift_case tc)) = (None, run_case e n st (i, tc))"
proof -
  obtain self out where st: "st = (self, out)" by (cases st)
  obtain ok act err evs where r: "run_single_test self (child e i) tc = ((ok, act, err), evs)"
    by (metis prod.exhaust)
  show ?thesis
    unfolding st
    by (cases ok)
      (simp_all add: run_case_raw_def run_case_def run_single_test_raw_lift r jget_lift
        emit_never_raises never_raises_def Let_def)
qed

lemma run_loop_raw_lift:
  "run_loop_raw e never_raises n (map (\<lambda>x. (fst x, Case (lift_case (snd x)))) xs) st =
     (None, foldl (run_case e n) st xs)"
proof (induction xs arbitrary: st)
  case Nil
  show ?case by simp
next
  case (Cons x xs)
  obtain i tc where x: "x = (i, tc)" by (cases x)
  show ?case by (simp add: x run_case_raw_lift Cons.IH)
qed

lemma enumerate_map_snd:
  "enumerate k (map f xs) = map (\<lambda>x. (fst x, f (snd x))) (enumerate k xs)"
  by (induction xs arbitrary: k) simp_all

lemma run_all_tests_raw_lift:
  "run_all_tests_raw e (lift_load (json_load e)) never_raises self =
     (case run_all_tests e self of
        Inl x \<Rightarrow> (Some x, self, [])
      | Inr st \<Rightarrow> (None, st))"
  by (simp add: run_all_tests_raw_def run_all_tests_def load_tests_def lift_load_def
      emit_never_raises never_raises_def enumerate_map_snd run_loop_raw_lift
      split: sum.splits option.splits)

lemma main_raw_lift:
  "main_raw e (lift_load (json_load e)) never_raises binary tests v t = main e binary tests v t"
  by (simp add: main_raw_def main_def run_all_tests_raw_lift emit_never_raises
      split: sum.splits prod.splits)

lemmas raw_defs = main_raw_def init_def run_all_tests_raw_def run_case_raw_def
  run_single_test_raw_def jget_def no_attribute_def example_env_def example_runner_def cat_def
  bad_expected_load_def bad_expected_cases_def surrogate_name_load_def surrogate_name_cases_def
  never_raises_def utf8_stdout_def has_surrogate_def strip_def isspace_def lit_def str.simps
  Let_def process_events_def

text \<open>
  C4 does not hold of the code. The suite whose second case has the expected value 5:
  \<open>strip\<close> raises \<open>AttributeError\<close> before the \<open>try\<close> of \<open>run_single_test\<close>, the exception
  leaves \<open>run_single_test\<close> and \<open>run_all_tests\<close>, and \<open>main\<close> prints it and exits with 1
  after the first case alone has been run: the second case gets no outcome and the
  third is never executed. The same value as the input of a case is caught inside the
  \<open>try\<close> and becomes the error of that case. The suite whose second case has a lone
  surrogate as its name: \<open>print\<close> of the progress line raises outside every \<open>try\<close>, and
  again the first case alone is run.
\<close>

theorem uncaught_exception_ends_run:
  "run_single_test_raw example_runner (cat 2)
      [lit ''name'' \<mapsto> JString (lit ''b''), lit ''input'' \<mapsto> JString (lit ''2''),
       lit ''expected'' \<mapsto> JOther (lit ''int'') (lit ''5'')] =
     (Inl (AttributeError
            ([39] @ lit ''int'' @ [39] @ lit '' object has no attribute '' @ [39] @
             lit ''strip'' @ [39])), []) \<and>
   run_single_test_raw example_runner (cat 2)
      [lit ''name'' \<mapsto> JString (lit ''b''), lit ''input'' \<mapsto> JOther (lit ''int'') (lit ''5''),
       lit ''expected'' \<mapsto> JString (lit ''2'')] =
     (Inr (False, None,
           Some (lit ''Error: '' @ [39] @ lit ''int'' @ [39] @ lit '' object has no attribute '' @
                 [39] @ lit ''encode'' @ [39])), [Popen]) \<and>
   main_raw example_env bad_expected_load never_raises (lit ''/opt/prog'') (lit ''tests.json'')
       False (lit ''5.0'') =
     (1, [Print (RunningLine 3),
          Print (ProgressLine 1 3 (lit ''a'')), Popen, Communicate (lit ''1''), Print PassedLine,
          Print (ProgressLine 2 3 (lit ''b'')),
          Print (FatalLine
                  ([39] @ lit ''int'' @ [39] @ lit '' object has no attribute '' @ [39] @
                   lit ''strip'' @ [39]))]) \<and>
   fst (main_raw example_env surrogate_name_load utf8_stdout (lit ''/opt/prog'')
          (lit ''tests.json'') False (lit ''5.0'')) = 1 \<and>
   process_events
     (snd (main_raw example_env surrogate_name_load utf8_stdout (lit ''/opt/prog'')
             (lit ''tests.json'') False (lit ''5.0''))) = [Popen, Communicate (lit ''1'')]"
  by (simp add: raw_defs)

section \<open>Timeouts\<close>

text \<open>
  C5: when the child of a test case exceeds the timeout, \<open>run_single_test\<close> returns the
  error message \<open>Timeout (<limit>s)\<close> with the configured limit and no actual output,
  and its last action on the child, before it returns, is to kill it; the loop then
  adds 1 to \<open>total\<close> and to \<open>failed\<close>, leaves \<open>passed\<close> as it is, and appends one failure
  record whose \<open>actual\<close> is absent.
\<close>

theorem timeout_outcome:
  assumes "child e i (get tc (lit ''input'') []) = TimeoutExpired"
  shows "run_single_test self (child e i) tc =
       ((False, None, Some (lit ''Timeout ('' @ timeout self @ lit ''s)'')),
        [Popen, Communicate (get tc (lit ''input'') []), Kill]) \<and>
     results (fst (run_case e n (self, out) (i, tc))) =
       (results self)\<lparr>total_count := total_count (results self) + 1,
          failed := failed (results self) + 1,
          failures := failures (results self) @
            [\<lparr>test = get tc (lit ''name'') (lit ''Test '' @ str i),
              input = get tc (lit ''input'') [],
              expected = get tc (lit ''expected'') [],
              actual = None,
              error = Some (lit ''Timeout ('' @ timeout self @ lit ''s)'')\<rparr>]\<rparr>"
proof -
  from assms have r: "run_single_test self (child e i) tc =
       ((False, None, Some (lit ''Timeout ('' @ timeout self @ lit ''s)'')),
        [Popen, Communicate (get tc (lit ''input'') []), Kill])"
    by (simp add: run_single_test_def Let_def)
  then show ?thesis by (simp add: run_case_failed)
qed

theorem timeout_outcome_witness:
  "child flaky_env 3 (get (five_cases ! 2) (lit ''input'') []) = TimeoutExpired \<and>
   run_single_test example_runner (child flaky_env 3) (five_cases ! 2) =
     ((False, None, Some (lit ''Timeout (5.0s)'')), [Popen, Communicate (lit ''3''), Kill]) \<and>
   failed (results (fst (run_case flaky_env 5 (example_runner, []) (3, five_cases ! 2)))) = 1 \<and>
   passed (results (fst (run_case flaky_env 5 (example_runner, []) (3, five_cases ! 2)))) = 0 \<and>
   map actual (failures (results (fst (run_case flaky_env 5 (example_runner, [])
      (3, five_cases ! 2))))) = [None]"
proof -
  have h: "child flaky_env 3 (get (five_cases ! 2) (lit ''input'') []) = TimeoutExpired"
    by (simp add: flaky_env_def flaky_def)
  have i: "get (five_cases ! 2) (lit ''input'') [] = lit ''3''"
    by (simp add: five_cases_def get_def lit_def)
  have t: "lit ''Timeout ('' @ timeout example_runner @ lit ''s)'' = lit ''Timeout (5.0s)''"
    by (simp add: example_runner_def lit_def)
  from timeout_outcome [OF h, of example_runner 5 "[]"] h show ?thesis
    unfolding i t by (simp add: example_runner_def)
qed

section \<open>The order of the failure records\<close>

text \<open>
  C6: after a run, the failures list is the list before the run followed by the failure
  records of the test cases that did not pass, one for each, in the order of the suite;
  its length grows by the number of test cases that did not pass, whatever their names.
\<close>

theorem failures_in_suite_order:
  assumes "load_tests e self = Inr doc" and "doc (lit ''test_cases'') = Some cases"
  shows "\<exists>self' out. run_all_tests e self = Inr (self', out) \<and>
     failures (results self') =
       failures (results self) @ List.map_filter (failure_of e self) (enumerate 1 cases) \<and>
     length (failures (results self')) =
       length (failures (results self)) +
       length (filter (\<lambda>x. \<not> fst (fst (run_single_test self (child e (fst x)) (snd x))))
                 (enumerate 1 cases))"
proof -
  obtain self' out where f: "foldl (run_case e (length cases))
      (self, [Print (RunningLine (length cases))]) (enumerate 1 cases) = (self', out)"
    by (metis prod.exhaust)
  note inv = foldl_run_case [OF f]
  have n: "(failure_of e self x = None) = fst (fst (run_single_test self (child e (fst x)) (snd x)))" for x
    by (cases x) (auto simp: failure_of_def split: prod.splits)
  have "length (List.map_filter (failure_of e self) xs) =
      length (filter (\<lambda>x. \<not> fst (fst (run_single_test self (child e (fst x)) (snd x)))) xs)" for xs
    by (simp add: List.map_filter_def n)
  with inv have "failures (results self') =
       failures (results self) @ List.map_filter (failure_of e self) (enumerate 1 cases) \<and>
     length (failures (results self')) =
       length (failures (results self)) +
       length (filter (\<lambda>x. \<not> fst (fst (run_single_test self (child e (fst x)) (snd x))))
                 (enumerate 1 cases))"
    by simp
  moreover have "run_all_tests e self = Inr (self', out)"
    using run_all_tests_loaded [OF assms] f by simp
  ultimately show ?thesis by blast
qed

theorem failures_in_suite_order_witness:
  "load_tests example_env example_runner = Inr [lit ''test_cases'' \<mapsto> five_cases] \<and>
   [lit ''test_cases'' \<mapsto> five_cases] (lit ''test_cases'') = Some five_cases \<and>
   (\<exists>self' out. run_all_tests example_env example_runner = Inr (self', out) \<and>
      map test (failures (results self')) = [lit ''dup'', lit ''dup'', lit ''Test 5''] \<and>
      map input (failures (results self')) = [lit ''1'', lit ''3'', lit ''5''])"
proof -
  have l: "load_tests example_env example_runner = Inr [lit ''test_cases'' \<mapsto> five_cases]"
    by (simp add: load_tests_def example_env_def)
  have d: "[lit ''test_cases'' \<mapsto> five_cases] (lit ''test_cases'') = Some five_cases"
    by simp
  have m: "List.map_filter (failure_of example_env example_runner) (enumerate 1 five_cases) =
     [\<lparr>test = lit ''dup'', input = lit ''1'', expected = lit ''x'', actual = Some (lit ''1''),
       error = Some (lit ''Output mismatch'')\<rparr>,
      \<lparr>test = lit ''dup'', input = lit ''3'', expected = lit ''y'', actual = Some (lit ''3''),
       error = Some (lit ''Output mismatch'')\<rparr>,
      \<lparr>test = lit ''Test 5'', input = lit ''5'', expected = lit ''6'', actual = Some (lit ''5''),
       error = Some (lit ''Output mismatch'')\<rparr>]"
    by (simp add: example_defs)
  have z: "failures (results example_runner) = []" by (simp add: example_runner_def)
  from failures_in_suite_order [OF l d] l d show ?thesis
    unfolding m z by auto
qed

section \<open>Standard error and the return code\<close>

text \<open>
  C7: two executions of a test case whose children complete with the same standard
  output give the same result, whatever their standard error and return code are; the
  verdict is the equality of the stripped standard output and the stripped expected
  string.
\<close>

theorem stderr_not_compared:
  assumes "proc_a (get tc (lit ''input'') []) = Completed out stderr_a rc_a"
      and "proc_b (get tc (lit ''input'') []) = Completed out stderr_b rc_b"
  shows "run_single_test self proc_a tc = run_single_test self proc_b tc \<and>
     fst (fst (run_single_test self proc_a tc)) =
       (strip out = strip (get tc (lit ''expected'') []))"
  using assms by (simp add: run_single_test_def Let_def)

theorem stderr_not_compared_witness:
  "cat 2 (get (five_cases ! 1) (lit ''input'') []) = Completed (lit ''2'') [] 0 \<and>
   flaky 2 (get (five_cases ! 1) (lit ''input'') []) = Completed (lit ''2'') (lit ''warning'') 0 \<and>
   run_single_test example_runner (cat 2) (five_cases ! 1) =
     run_single_test example_runner (flaky 2) (five_cases ! 1) \<and>
   fst (fst (run_single_test example_runner (cat 2) (five_cases ! 1)))"
proof -
  have a: "cat 2 (get (five_cases ! 1) (lit ''input'') []) = Completed (lit ''2'') [] 0"
    by (simp add: cat_def five_cases_def get_def lit_def)
  have b: "flaky 2 (get (five_cases ! 1) (lit ''input'') []) =
      Completed (lit ''2'') (lit ''warning'') 0"
    by (simp add: flaky_def five_cases_def get_def lit_def)
  have c: "strip (lit ''2'') = strip (get (five_cases ! 1) (lit ''expected'') [])"
    by (simp add: five_cases_def get_def lit_def)
  from stderr_not_compared [where proc_a = "cat 2" and proc_b = "flaky 2"
      and tc = "five_cases ! 1" and self = example_runner, OF a b] a b c
  show ?thesis by auto
qed

section \<open>Defaults for missing fields\<close>




section \<open>The actual output in a failure record\<close>

lemma actual_line_details:
  "(Print (ActualLine k a) \<in> set (print_failure_details f)) = (k = 2 \<and> actual f = Some a)"
  by (auto simp: print_failure_details_def split: option.splits)

lemma actual_line_item:
  "(Print (ActualLine k a) \<in> set (summary_item f)) = (k = 4 \<and> actual f = Some a)"
  by (auto simp: summary_item_def split: option.splits)

lemma actual_line_summary:
  "(Print (ActualLine k a) \<in> set (snd (print_summary self))) =
     (k = 4 \<and> 0 < failed (results self) \<and>
      (\<exists>f. f \<in> set (failures (results self)) \<and> actual f = Some a))"
  by (auto simp: print_summary_def Let_def actual_line_item)

text \<open>
  C9: the failure record of a test case has no \<open>actual\<close> when the child timed out or an
  exception was raised, and has the stripped standard output as \<open>actual\<close> when the child
  completed with a different output; \<open>print_failure_details\<close> and \<open>print_summary\<close> print
  an Actual line for exactly the records whose \<open>actual\<close> is present.
\<close>

theorem actual_only_on_mismatch:
  "(\<not> fst (fst (run_single_test self (child e i) tc)) \<longrightarrow>
      (\<exists>f. failures (results (fst (run_case e n (self, out) (i, tc)))) =
             failures (results self) @ [f] \<and>
           (case child e i (get tc (lit ''input'') []) of
              Completed stdout stderr rc \<Rightarrow>
                actual f = Some (strip stdout) \<and> error f = Some (lit ''Output mismatch'')
            | TimeoutExpired \<Rightarrow>
                actual f = None \<and>
                error f = Some (lit ''Timeout ('' @ timeout self @ lit ''s)'')
            | PopenRaised m \<Rightarrow> actual f = None \<and> error f = Some (lit ''Error: '' @ m)
            | CommunicateRaised m \<Rightarrow>
                actual f = None \<and> error f = Some (lit ''Error: '' @ m)))) \<and>
   (Print (ActualLine k a) \<in> set (print_failure_details failure)) =
     (k = 2 \<and> actual failure = Some a) \<and>
   (Print (ActualLine k a) \<in> set (snd (print_summary self))) =
     (k = 4 \<and> 0 < failed (results self) \<and>
      (\<exists>f. f \<in> set (failures (results self)) \<and> actual f = Some a))"
proof (intro conjI impI)
  assume h: "\<not> fst (fst (run_single_test self (child e i) tc))"
  have "case child e i (get tc (lit ''input'') []) of
              Completed stdout stderr rc \<Rightarrow>
                fst (snd (fst (run_single_test self (child e i) tc))) = Some (strip stdout) \<and>
                snd (snd (fst (run_single_test self (child e i) tc))) = Some (lit ''Output mismatch'')
            | TimeoutExpired \<Rightarrow>
                fst (snd (fst (run_single_test self (child e i) tc))) = None \<and>
                snd (snd (fst (run_single_test self (child e i) tc))) =
                  Some (lit ''Timeout ('' @ timeout self @ lit ''s)'')
            | PopenRaised m \<Rightarrow>
                fst (snd (fst (run_single_test self (child e i) tc))) = None \<and>
                snd (snd (fst (run_single_test self (child e i) tc))) = Some (lit ''Error: '' @ m)
            | CommunicateRaised m \<Rightarrow>
                fst (snd (fst (run_single_test self (child e i) tc))) = None \<and>
                snd (snd (fst (run_single_test self (child e i) tc))) = Some (lit ''Error: '' @ m)"
    using h by (cases "child e i (get tc (lit ''input'') [])")
      (simp_all add: run_single_test_def Let_def split: if_splits)
  with run_case_append_failure [OF h, of n out]
  show "\<exists>f. failures (results (fst (run_case e n (self, out) (i, tc)))) =
             failures (results self) @ [f] \<and>
           (case child e i (get tc (lit ''input'') []) of
              Completed stdout stderr rc \<Rightarrow>
                actual f = Some (strip stdout) \<and> error f = Some (lit ''Output mismatch'')
            | TimeoutExpired \<Rightarrow>
                actual f = None \<and>
                error f = Some (lit ''Timeout ('' @ timeout self @ lit ''s)'')
            | PopenRaised m \<Rightarrow> actual f = None \<and> error f = Some (lit ''Error: '' @ m)
            | CommunicateRaised m \<Rightarrow>
                actual f = None \<and> error f = Some (lit ''Error: '' @ m))"
    by (simp split: proc_outcome.splits)
next
  show "(Print (ActualLine k a) \<in> set (print_failure_details failure)) =
     (k = 2 \<and> actual failure = Some a)"
    by (rule actual_line_details)
next
  show "(Print (ActualLine k a) \<in> set (snd (print_summary self))) =
     (k = 4 \<and> 0 < failed (results self) \<and>
      (\<exists>f. f \<in> set (failures (results self)) \<and> actual f = Some a))"
    by (rule actual_line_summary)
qed

theorem actual_only_on_mismatch_witness:
  "\<not> fst (fst (run_single_test example_runner (child example_env 1) trailing_space_case)) \<and>
   (\<exists>f. failures (results (fst (run_case example_env 1 (example_runner, [])
            (1, trailing_space_case)))) = [f] \<and>
        actual f = Some [98] \<and> error f = Some (lit ''Output mismatch'')) \<and>
   \<not> fst (fst (run_single_test example_runner (child flaky_env 3) empty_case)) \<and>
   (\<exists>f. failures (results (fst (run_case flaky_env 5 (example_runner, [])
            (3, empty_case)))) = [f] \<and>
        actual f = None \<and> error f = Some (lit ''Timeout (5.0s)''))"
proof -
  have h1: "\<not> fst (fst (run_single_test example_runner (child example_env 1)
      trailing_space_case))"
    by (simp add: run_single_test_def example_env_def cat_def trailing_space_case_def get_def
        strip_def lit_def isspace_def)
  have c1: "child example_env 1 (get trailing_space_case (lit ''input'') []) =
      Completed [32, 98, 10] [] 0"
    by (simp add: example_env_def cat_def trailing_space_case_def get_def lit_def)
  have s1: "strip [32, 98, 10] = [98]" by (simp add: strip_def isspace_def)
  have h2: "\<not> fst (fst (run_single_test example_runner (child flaky_env 3) empty_case))"
    by (simp add: run_single_test_def flaky_env_def flaky_def)
  have c2: "child flaky_env 3 (get empty_case (lit ''input'') []) = TimeoutExpired"
    by (simp add: flaky_env_def flaky_def)
  have t: "lit ''Timeout ('' @ timeout example_runner @ lit ''s)'' = lit ''Timeout (5.0s)''"
    by (simp add: example_runner_def lit_def)
  have z: "failures (results example_runner) = []" by (simp add: example_runner_def)
  from actual_only_on_mismatch [of example_runner example_env 1 trailing_space_case 1 "[]"]
    h1
  have 1: "\<exists>f. failures (results (fst (run_case example_env 1 (example_runner, [])
            (1, trailing_space_case)))) = [f] \<and>
        actual f = Some [98] \<and> error f = Some (lit ''Output mismatch'')"
    unfolding c1 z by (simp add: s1)
  from actual_only_on_mismatch [of example_runner flaky_env 3 empty_case 5 "[]"] h2
  have 2: "\<exists>f. failures (results (fst (run_case flaky_env 5 (example_runner, [])
            (3, empty_case)))) = [f] \<and>
        actual f = None \<and> error f = Some (lit ''Timeout (5.0s)'')"
    unfolding c2 z by (simp add: t)
  from h1 h2 1 2 show ?thesis by blast
qed

section \<open>The strings kept in a failure record\<close>

text \<open>
  C10: the failure record of a test case that did not pass stores the \<open>input\<close> and
  \<open>expected\<close> fields of the test case as they are, not stripped, and the empty string
  for a field the test case does not have. A test case is a value here: the source
  never assigns to a test case.
\<close>

theorem failure_record_keeps_original_strings:
  assumes "\<not> fst (fst (run_single_test self (child e i) tc))"
  shows "\<exists>f. failures (results (fst (run_case e n (self, out) (i, tc)))) =
          failures (results self) @ [f] \<and>
        input f = (case tc (lit ''input'') of None \<Rightarrow> [] | Some v \<Rightarrow> v) \<and>
        expected f = (case tc (lit ''expected'') of None \<Rightarrow> [] | Some v \<Rightarrow> v)"
  using run_case_append_failure [OF assms, of n out] by (simp add: get_def)

theorem failure_record_keeps_original_strings_witness:
  "\<not> fst (fst (run_single_test example_runner (child example_env 1) trailing_space_case)) \<and>
   (\<exists>f. failures (results (fst (run_case example_env 1 (example_runner, [])
            (1, trailing_space_case)))) = [f] \<and>
        input f = [32, 98, 10] \<and> expected f = [97, 32, 10] \<and> actual f = Some [98])"
proof -
  have h: "\<not> fst (fst (run_single_test example_runner (child example_env 1) trailing_space_case))"
    by (simp add: run_single_test_def example_env_def cat_def trailing_space_case_def get_def
        strip_def lit_def isspace_def)
  have a: "fst (snd (fst (run_single_test example_runner (child example_env 1)
      trailing_space_case))) = Some [98]"
    by (simp add: run_single_test_def example_env_def cat_def trailing_space_case_def get_def
        strip_def lit_def isspace_def)
  have z: "failures (results example_runner) = []" by (simp add: example_runner_def)
  have t: "trailing_space_case (lit ''input'') = Some [32, 98, 10]"
    "trailing_space_case (lit ''expected'') = Some [97, 32, 10]"
    by (simp_all add: trailing_space_case_def lit_def)
  from failure_record_keeps_original_strings [OF h, of 1 "[]"] h
    run_case_append_failure [OF h, of 1 "[]"] a
  show ?thesis unfolding z t by auto
qed

end
